theory Spec2Isabelle
  imports Main "HOL-Library.Word"
begin

unbundle bit_operations_syntax

section \<open>Coyote power and waveform encodings (Waveforms.h)\<close>

text \<open>
  The header declares three structs made of bit-fields of type \<open>uint32_t\<close>, the
  constructors of two of them, a conversion of each to a byte pointer, and five constant
  waveform tables. Each struct is a \<^theory_text>\<open>record\<close> whose fields are words of the
  declared widths, so an assignment to a field is a \<open>ucast\<close> that drops the high bits.

  The constructor parameters are \<open>uint8_t\<close> and \<open>uint16_t\<close>; the arithmetic of the
  power constructor happens in \<open>uint32_t\<close> (one operand, \<open>MAXPOWER\<close>, has that type).
\<close>

type_synonym u8 = "8 word"
type_synonym u16 = "16 word"
type_synonym u32 = "32 word"

subsection \<open>Configuration\<close>

text \<open>
  \<^verbatim>\<open>static struct CFGval { uint32_t step : 8; uint32_t maxPwr : 11; uint32_t rsvd : 13; }
  gCoyoteCfg = {7, 2000, 0};\<close>
  The object is a mutable global that the power constructor reads; the model passes it to
  the constructor as an argument, and \<open>gCoyoteCfg\<close> is its initial value.
\<close>

record CFGval =
  step :: "8 word"
  maxPwr :: "11 word"
  rsvd :: "13 word"

definition gCoyoteCfg :: CFGval where
  "gCoyoteCfg = \<lparr>step = 7, maxPwr = 2000, rsvd = 0\<rparr>"

subsection \<open>PowerVal\<close>

record PowerVal =
  B :: "11 word"
  A :: "11 word"
  rsvd :: "10 word"

definition MAXPOWER :: u32 where
  "MAXPOWER = 100"

text \<open>
  \<^verbatim>\<open>PowerVal(uint8_t a = 0, uint8_t b = 0)
    : B(((b < 100) ? b : MAXPOWER) * gCoyoteCfg.step)
    , A(((a < 100) ? a : MAXPOWER) * gCoyoteCfg.step)
    , rsvd(0) {}\<close>
  The conditional has type \<open>uint32_t\<close>, the product is taken in 32 bits, and the
  initialisation of the 11-bit field keeps its low 11 bits.
\<close>

definition PowerVal_ctor :: "CFGval \<Rightarrow> u8 \<Rightarrow> u8 \<Rightarrow> PowerVal" where
  "PowerVal_ctor cfg a b =
     \<lparr>B = ucast ((if b < 100 then ucast b else MAXPOWER) * (ucast (step cfg) :: u32)),
      A = ucast ((if a < 100 then ucast a else MAXPOWER) * (ucast (step cfg) :: u32)),
      rsvd = 0\<rparr>"

subsection \<open>WaveVal\<close>

record WaveVal =
  x :: "5 word"
  y :: "10 word"
  z :: "5 word"
  rsvd :: "12 word"

text \<open>
  \<^verbatim>\<open>WaveVal(uint8_t X, uint16_t Y, uint8_t Z) : x(X), y(Y), z(Z), rsvd(0) {}\<close>
\<close>

definition WaveVal_ctor :: "u8 \<Rightarrow> u16 \<Rightarrow> u8 \<Rightarrow> WaveVal" where
  "WaveVal_ctor X Y Z = \<lparr>x = ucast X, y = ucast Y, z = ucast Z, rsvd = 0\<rparr>"

text \<open>
  The object representation. The four bit-fields share one 32-bit allocation unit. On the
  ESP32 (little-endian, GCC) the fields are laid out from the least significant bit in
  the order of their declaration, and byte \<open>i\<close> of the object holds bits \<open>8 * i\<close> to
  \<open>8 * i + 7\<close> of the unit. \<open>WaveVal_unit\<close> is the unit of an object and
  \<open>unit_WaveVal\<close> reads the fields back from a unit.
\<close>

definition WaveVal_unit :: "WaveVal \<Rightarrow> u32" where
  "WaveVal_unit v =
     ucast (x v) OR push_bit 5 (ucast (y v)) OR push_bit 15 (ucast (z v))
       OR push_bit 20 (ucast (WaveVal.rsvd v))"

definition unit_WaveVal :: "u32 \<Rightarrow> WaveVal" where
  "unit_WaveVal w =
     \<lparr>x = ucast w, y = ucast (drop_bit 5 w), z = ucast (drop_bit 15 w),
      rsvd = ucast (drop_bit 20 w)\<rparr>"

text \<open>Reading and writing byte \<open>i\<close> of a unit through a \<open>uint8_t*\<close>.\<close>

definition load_byte :: "u32 \<Rightarrow> nat \<Rightarrow> u8" where
  "load_byte w i = ucast (drop_bit (8 * i) w)"

definition store_byte :: "u32 \<Rightarrow> nat \<Rightarrow> u8 \<Rightarrow> u32" where
  "store_byte w i v = (w AND NOT (push_bit (8 * i) 255)) OR push_bit (8 * i) (ucast v)"

text \<open>
  \<^verbatim>\<open>WaveVal(std::vector<uint8_t> bytes)
  {
      while (bytes.size() < 3) bytes.push_back(0x00);
      auto b = (uint8_t*) this;
      for (unsigned int i = 0; i < 3; i++) b[i] = bytes[i];
  }\<close>
  \<open>pad3\<close> is the \<open>while\<close> loop and \<open>copy3\<close> the \<open>for\<close> loop, started at \<open>i = 0\<close>.
  The constructor initialises no member and writes three of the four bytes of the object,
  so the fourth byte keeps what the storage held before: \<open>mem\<close> is that earlier content
  of the unit.
\<close>

function pad3 :: "u8 list \<Rightarrow> u8 list" where
  "pad3 bytes = (if length bytes < 3 then pad3 (bytes @ [0]) else bytes)"
  by pat_completeness auto
termination
  by (relation "measure (\<lambda>bytes. 3 - length bytes)") auto

function copy3 :: "nat \<Rightarrow> u8 list \<Rightarrow> u32 \<Rightarrow> u32" where
  "copy3 i bytes w =
     (if i < 3 then copy3 (Suc i) bytes (store_byte w i (bytes ! i)) else w)"
  by pat_completeness auto
termination
  by (relation "measure (\<lambda>(i, bytes, w). 3 - i)") auto

declare pad3.simps [simp del] copy3.simps [simp del]

definition WaveVal_ctor_bytes :: "u32 \<Rightarrow> u8 list \<Rightarrow> WaveVal" where
  "WaveVal_ctor_bytes mem bytes = unit_WaveVal (copy3 0 (pad3 bytes) mem)"

text \<open>
  \<^verbatim>\<open>operator uint8_t*() const { return (uint8_t*) this; }\<close>
  "Power and waveform encodings, transmitted LSB first 3 bytes only": \<open>to_bytes\<close> is
  the three bytes read through that pointer.
\<close>

definition to_bytes :: "WaveVal \<Rightarrow> u8 list" where
  "to_bytes v = map (load_byte (WaveVal_unit v)) [0, 1, 2]"

subsection \<open>Waveform tables\<close>

type_synonym Waveform = "WaveVal list"

text \<open>
  The twelve steps of \<open>DGLABS::GrainTouch\<close> are built from bytes, each in a temporary
  of its own: \<open>mem k\<close> is the earlier content of the storage of step \<open>k\<close>.
\<close>

definition GrainTouch :: "(nat \<Rightarrow> u32) \<Rightarrow> Waveform" where
  "GrainTouch mem =
     [WaveVal_ctor_bytes (mem 0) [0xE1, 0x03, 0x00],
      WaveVal_ctor_bytes (mem 1) [0xE1, 0x03, 0x0A],
      WaveVal_ctor_bytes (mem 2) [0xA1, 0x04, 0x0A],
      WaveVal_ctor_bytes (mem 3) [0xC1, 0x05, 0x0A],
      WaveVal_ctor_bytes (mem 4) [0x01, 0x07, 0x00],
      WaveVal_ctor_bytes (mem 5) [0x21, 0x01, 0x0A],
      WaveVal_ctor_bytes (mem 6) [0x61, 0x01, 0x0A],
      WaveVal_ctor_bytes (mem 7) [0xA1, 0x01, 0x0A],
      WaveVal_ctor_bytes (mem 8) [0x01, 0x02, 0x00],
      WaveVal_ctor_bytes (mem 9) [0x01, 0x02, 0x0A],
      WaveVal_ctor_bytes (mem 10) [0x81, 0x02, 0x0A],
      WaveVal_ctor_bytes (mem 11) [0x21, 0x03, 0x0A]]"

definition AudioBase :: Waveform where
  "AudioBase = [WaveVal_ctor 1 9 16]"

definition IntenseVibration :: Waveform where
  "IntenseVibration = [WaveVal_ctor 1 9 22]"

definition SlowWave :: Waveform where
  "SlowWave =
     [WaveVal_ctor 1 26 8,
      WaveVal_ctor 1 26 8,
      WaveVal_ctor 1 24 10,
      WaveVal_ctor 1 22 12,
      WaveVal_ctor 1 20 14,
      WaveVal_ctor 1 18 16,
      WaveVal_ctor 1 16 18,
      WaveVal_ctor 1 16 22,
      WaveVal_ctor 1 16 24,
      WaveVal_ctor 1 12 24,
      WaveVal_ctor 1 12 24,
      WaveVal_ctor 1 16 24,
      WaveVal_ctor 1 16 22,
      WaveVal_ctor 1 16 18,
      WaveVal_ctor 1 18 16,
      WaveVal_ctor 1 20 14,
      WaveVal_ctor 1 22 12,
      WaveVal_ctor 1 24 10]"

definition MediumWave :: Waveform where
  "MediumWave =
     [WaveVal_ctor 1 9 4,
      WaveVal_ctor 1 9 4,
      WaveVal_ctor 1 9 6,
      WaveVal_ctor 1 9 10,
      WaveVal_ctor 1 9 12,
      WaveVal_ctor 1 9 17,
      WaveVal_ctor 1 9 20,
      WaveVal_ctor 1 9 20,
      WaveVal_ctor 1 9 20,
      WaveVal_ctor 1 9 20,
      WaveVal_ctor 1 9 20,
      WaveVal_ctor 1 9 17,
      WaveVal_ctor 1 9 12,
      WaveVal_ctor 1 9 10,
      WaveVal_ctor 1 9 6]"

text \<open>
  The three fields of a step as a triple, and the byte sequence the specification calls
  normalised: the first three bytes, followed by as many zero bytes as are missing.
\<close>

definition xyz :: "WaveVal \<Rightarrow> nat \<times> nat \<times> nat" where
  "xyz v = (unat (x v), unat (y v), unat (z v))"

definition normalize3 :: "u8 list \<Rightarrow> u8 list" where
  "normalize3 bs = take 3 bs @ replicate (3 - length bs) 0"

section \<open>The power encoder\<close>

text \<open>
  The product of the clamped level and the step is below \<open>2 ^ 32\<close>, so the 32-bit
  multiplication does not wrap; the only truncation is the one to the 11-bit field.
\<close>

lemma unat_clamp_mult:
  "unat ((if a < 100 then ucast a else MAXPOWER) * (ucast s :: u32))
     = (if unat a < 100 then unat a else 100) * unat s" for a s :: u8
proof -
  have s: "unat s < 256"
    using unsigned_less [of s, where ?'a = nat] by simp
  have lt: "(a < 100) = (unat a < 100)"
    by (simp add: word_less_nat_alt)
  have c: "unat (if a < 100 then ucast a else MAXPOWER :: u32)
      = (if unat a < 100 then unat a else 100)"
    by (simp add: MAXPOWER_def lt unsigned_ucast_eq take_bit_eq_mod)
  have "(if unat a < 100 then unat a else 100) * unat s \<le> 100 * 255"
    using s by (intro mult_le_mono) auto
  then have p: "(if unat a < 100 then unat a else 100) * unat s < 2 ^ 32"
    by simp
  have u: "unat (ucast s :: u32) = unat s"
    using s by (simp add: unsigned_ucast_eq take_bit_eq_mod)
  have "unat ((if a < 100 then ucast a else MAXPOWER) * (ucast s :: u32))
      = ((if unat a < 100 then unat a else 100) * unat s) mod 2 ^ 32"
    by (simp only: unat_word_ariths c u) simp
  with p show ?thesis by simp
qed

lemma unat_A_PowerVal:
  "unat (A (PowerVal_ctor cfg a b))
     = ((if unat a < 100 then unat a else 100) * unat (step cfg)) mod 2048"
  by (simp add: PowerVal_ctor_def unsigned_ucast_eq take_bit_eq_mod unat_clamp_mult)

lemma unat_B_PowerVal:
  "unat (B (PowerVal_ctor cfg a b))
     = ((if unat b < 100 then unat b else 100) * unat (step cfg)) mod 2048"
  by (simp add: PowerVal_ctor_def unsigned_ucast_eq take_bit_eq_mod unat_clamp_mult)

lemma rsvd_PowerVal: "PowerVal.rsvd (PowerVal_ctor cfg a b) = 0"
  by (simp add: PowerVal_ctor_def)

lemma step_le_20: "n \<le> 100 \<Longrightarrow> s \<le> 20 \<Longrightarrow> n * s mod 2048 = n * s" for n s :: nat
proof -
  assume "n \<le> 100" and "s \<le> 20"
  then have "n * s \<le> 100 * 20" by (rule mult_le_mono)
  then show ?thesis by simp
qed

text \<open>
  C3. For every \<open>a\<close> and \<open>b\<close> in \<open>0..99\<close> the frame has \<open>A = a * step\<close>,
  \<open>B = b * step\<close> and the ten reserved bits zero. As stated, for every step the
  configuration can hold, this fails: with \<open>step = 21\<close> and \<open>a = 99\<close> the product
  \<open>2079\<close> does not fit the 11-bit field, which keeps \<open>2079 mod 2048 = 31\<close>.
\<close>

theorem PowerVal_in_range_counterexample:
  "unat (99 :: u8) < 100
   \<and> unat (A (PowerVal_ctor \<lparr>step = 21, maxPwr = 2000, rsvd = 0\<rparr> 99 99)) = 31
   \<and> unat (A (PowerVal_ctor \<lparr>step = 21, maxPwr = 2000, rsvd = 0\<rparr> 99 99))
       \<noteq> unat (99 :: u8) * unat (step \<lparr>step = 21, maxPwr = 2000, rsvd = 0\<rparr>)"
  by (simp add: PowerVal_ctor_def)

text \<open>
  C3, amended. For every \<open>a\<close> and \<open>b\<close> in \<open>0..99\<close> each channel holds the product of
  its level and the step reduced modulo \<open>2048\<close>, and the reserved bits are zero; when the
  step is at most \<open>20\<close> (the initial step \<open>7\<close> is), \<open>A = a * step\<close> and \<open>B = b * step\<close>.
\<close>

theorem PowerVal_in_range:
  assumes "unat a < 100" and "unat b < 100"
  shows "unat (A (PowerVal_ctor cfg a b)) = unat a * unat (step cfg) mod 2048
    \<and> unat (B (PowerVal_ctor cfg a b)) = unat b * unat (step cfg) mod 2048
    \<and> PowerVal.rsvd (PowerVal_ctor cfg a b) = 0
    \<and> (unat (step cfg) \<le> 20 \<longrightarrow>
          unat (A (PowerVal_ctor cfg a b)) = unat a * unat (step cfg)
        \<and> unat (B (PowerVal_ctor cfg a b)) = unat b * unat (step cfg))"
  using assms by (simp add: unat_A_PowerVal unat_B_PowerVal rsvd_PowerVal step_le_20)

theorem PowerVal_in_range_witness:
  "unat (99 :: u8) < 100 \<and> unat (42 :: u8) < 100 \<and> unat (step gCoyoteCfg) \<le> 20
   \<and> unat (A (PowerVal_ctor gCoyoteCfg 99 42)) = 693
   \<and> unat (B (PowerVal_ctor gCoyoteCfg 99 42)) = 294
   \<and> PowerVal.rsvd (PowerVal_ctor gCoyoteCfg 99 42) = 0"
  using PowerVal_in_range [of 99 42 gCoyoteCfg] by (simp add: gCoyoteCfg_def)

text \<open>
  C4. For every \<open>a\<close> in \<open>100..255\<close> and every \<open>b\<close> the frame has \<open>A = 100 * step\<close>.
  As stated, for every step the configuration can hold, this fails: with \<open>step = 21\<close>
  the product \<open>2100\<close> does not fit the 11-bit field, which keeps \<open>2100 mod 2048 = 52\<close>.
\<close>

theorem PowerVal_saturates_counterexample:
  "100 \<le> unat (100 :: u8)
   \<and> unat (A (PowerVal_ctor \<lparr>step = 21, maxPwr = 2000, rsvd = 0\<rparr> 100 0)) = 52
   \<and> unat (A (PowerVal_ctor \<lparr>step = 21, maxPwr = 2000, rsvd = 0\<rparr> 100 0))
       \<noteq> 100 * unat (step \<lparr>step = 21, maxPwr = 2000, rsvd = 0\<rparr>)"
  by (simp add: PowerVal_ctor_def MAXPOWER_def)

text \<open>
  C4, amended. For every \<open>a\<close> in \<open>100..255\<close> and every \<open>b\<close> the constructor treats \<open>a\<close>
  as \<open>100\<close>: \<open>A\<close> is what the level \<open>100\<close> gives, the product \<open>100 * step\<close> reduced modulo
  \<open>2048\<close>; when the step is at most \<open>20\<close> (the initial step \<open>7\<close> is), \<open>A = 100 * step\<close>.
\<close>

theorem PowerVal_saturates:
  assumes "100 \<le> unat a"
  shows "A (PowerVal_ctor cfg a b) = A (PowerVal_ctor cfg 100 b)
    \<and> unat (A (PowerVal_ctor cfg a b)) = 100 * unat (step cfg) mod 2048
    \<and> (unat (step cfg) \<le> 20 \<longrightarrow> unat (A (PowerVal_ctor cfg a b)) = 100 * unat (step cfg))"
proof -
  have 1: "unat (A (PowerVal_ctor cfg a b)) = 100 * unat (step cfg) mod 2048"
    using assms by (simp add: unat_A_PowerVal)
  have "unat (A (PowerVal_ctor cfg 100 b)) = 100 * unat (step cfg) mod 2048"
    by (simp add: unat_A_PowerVal)
  with 1 have "unat (A (PowerVal_ctor cfg a b)) = unat (A (PowerVal_ctor cfg 100 b))"
    by simp
  then have 2: "A (PowerVal_ctor cfg a b) = A (PowerVal_ctor cfg 100 b)"
    by (rule word_unat_eq_iff [THEN iffD2])
  from 1 2 show ?thesis
    by (simp add: step_le_20)
qed

theorem PowerVal_saturates_witness:
  "100 \<le> unat (255 :: u8) \<and> unat (step gCoyoteCfg) \<le> 20
   \<and> A (PowerVal_ctor gCoyoteCfg 255 3) = A (PowerVal_ctor gCoyoteCfg 100 3)
   \<and> unat (A (PowerVal_ctor gCoyoteCfg 255 3)) = 700"
  using PowerVal_saturates [of 255 gCoyoteCfg 3] by (auto simp add: gCoyoteCfg_def)

text \<open>
  C8. With the initial configuration, \<open>step = 7\<close> and \<open>maxPwr = 2000\<close>, the power levels
  \<open>a = 25\<close> and \<open>b = 25\<close> give \<open>A = 175\<close> and \<open>B = 175\<close>.
\<close>

theorem PowerVal_25_25:
  "step gCoyoteCfg = 7 \<and> maxPwr gCoyoteCfg = 2000
   \<and> A (PowerVal_ctor gCoyoteCfg 25 25) = 175 \<and> B (PowerVal_ctor gCoyoteCfg 25 25) = 175"
  by (simp add: PowerVal_ctor_def gCoyoteCfg_def)

text \<open>
  C9. The frame does not depend on \<open>maxPwr\<close>: two configurations with the same step give
  the same frame for every pair of levels. Nothing compares a channel with \<open>maxPwr\<close>; what
  bounds \<open>A\<close> and \<open>B\<close> is \<open>100 * step\<close>, which is \<open>700\<close> for the initial configuration and
  is reached there.
\<close>

theorem PowerVal_ignores_maxPwr:
  assumes "step cfg = step cfg'"
  shows "PowerVal_ctor cfg a b = PowerVal_ctor cfg' a b
    \<and> unat (A (PowerVal_ctor cfg a b)) \<le> 100 * unat (step cfg)
    \<and> unat (B (PowerVal_ctor cfg a b)) \<le> 100 * unat (step cfg)
    \<and> 100 * unat (step gCoyoteCfg) = 700
    \<and> unat (A (PowerVal_ctor gCoyoteCfg 100 100)) = 700
    \<and> unat (B (PowerVal_ctor gCoyoteCfg 100 100)) = 700"
proof -
  have eq: "PowerVal_ctor cfg a b = PowerVal_ctor cfg' a b"
    using assms by (simp add: PowerVal_ctor_def)
  have "unat (A (PowerVal_ctor cfg a b))
      \<le> (if unat a < 100 then unat a else 100) * unat (step cfg)"
    unfolding unat_A_PowerVal by (rule mod_less_eq_dividend)
  also have "\<dots> \<le> 100 * unat (step cfg)"
    by (rule mult_le_mono1) simp
  finally have bA: "unat (A (PowerVal_ctor cfg a b)) \<le> 100 * unat (step cfg)" .
  have "unat (B (PowerVal_ctor cfg a b))
      \<le> (if unat b < 100 then unat b else 100) * unat (step cfg)"
    unfolding unat_B_PowerVal by (rule mod_less_eq_dividend)
  also have "\<dots> \<le> 100 * unat (step cfg)"
    by (rule mult_le_mono1) simp
  finally have bB: "unat (B (PowerVal_ctor cfg a b)) \<le> 100 * unat (step cfg)" .
  have ref: "100 * unat (step gCoyoteCfg) = 700"
    "unat (A (PowerVal_ctor gCoyoteCfg 100 100)) = 700"
    "unat (B (PowerVal_ctor gCoyoteCfg 100 100)) = 700"
    by (simp_all add: unat_A_PowerVal unat_B_PowerVal gCoyoteCfg_def)
  from eq bA bB ref show ?thesis by simp
qed

theorem PowerVal_ignores_maxPwr_witness:
  "step gCoyoteCfg = step \<lparr>step = 7, maxPwr = 0, rsvd = 0\<rparr>
   \<and> maxPwr gCoyoteCfg \<noteq> maxPwr \<lparr>step = 7, maxPwr = 0, rsvd = 0\<rparr>
   \<and> PowerVal_ctor gCoyoteCfg 100 100 = PowerVal_ctor \<lparr>step = 7, maxPwr = 0, rsvd = 0\<rparr> 100 100
   \<and> unat (A (PowerVal_ctor gCoyoteCfg 100 100)) \<le> 700"
  using PowerVal_ignores_maxPwr [of gCoyoteCfg "\<lparr>step = 7, maxPwr = 0, rsvd = 0\<rparr>" 100 100]
  by (auto simp add: gCoyoteCfg_def)

section \<open>The waveform encoder\<close>

subsection \<open>Bits of the object representation\<close>

text \<open>
  Each operation on the unit is described by the bits of its result; the equations between
  units and fields below are then proved bit by bit.
\<close>

lemma bit_load_byte: "bit (load_byte w i) n \<longleftrightarrow> n < 8 \<and> bit w (8 * i + n)"
  by (auto simp add: load_byte_def bit_simps)

lemma bit_255: "bit (255 :: int) n \<longleftrightarrow> n < 8"
proof -
  have m: "(mask 8 :: int) = 255" by (simp add: mask_eq_exp_minus_1)
  have "bit (mask 8 :: int) n \<longleftrightarrow> n < 8" by (auto simp add: bit_mask_iff)
  then show ?thesis unfolding m .
qed

lemma bit_store_byte:
  "bit (store_byte w i v) n \<longleftrightarrow>
     (if 8 * i \<le> n \<and> n < 8 * i + 8 then n < 32 \<and> bit v (n - 8 * i) else bit w n)"
  by (auto simp add: store_byte_def bit_simps bit_255 dest: bit_imp_le_length)

lemma bit_WaveVal_unit:
  "bit (WaveVal_unit v) n \<longleftrightarrow>
     (if n < 5 then bit (x v) n else if n < 15 then bit (y v) (n - 5)
      else if n < 20 then bit (z v) (n - 15) else bit (WaveVal.rsvd v) (n - 20))"
  by (auto simp add: WaveVal_unit_def bit_simps dest: bit_imp_le_length)

lemma bit_x_unit: "bit (x (unit_WaveVal w)) n \<longleftrightarrow> n < 5 \<and> bit w n"
  by (auto simp add: unit_WaveVal_def bit_simps)

lemma bit_y_unit: "bit (y (unit_WaveVal w)) n \<longleftrightarrow> n < 10 \<and> bit w (5 + n)"
  by (auto simp add: unit_WaveVal_def bit_simps)

lemma bit_z_unit: "bit (z (unit_WaveVal w)) n \<longleftrightarrow> n < 5 \<and> bit w (15 + n)"
  by (auto simp add: unit_WaveVal_def bit_simps)

lemma bit_rsvd_unit: "bit (WaveVal.rsvd (unit_WaveVal w)) n \<longleftrightarrow> n < 12 \<and> bit w (20 + n)"
  by (auto simp add: unit_WaveVal_def bit_simps)

lemma copy3_unfold:
  "copy3 0 bs w = store_byte (store_byte (store_byte w 0 (bs ! 0)) 1 (bs ! 1)) 2 (bs ! 2)"
  by (simp add: copy3.simps[of 0] copy3.simps[of "Suc 0"] copy3.simps[of "Suc (Suc 0)"]
      copy3.simps[of "Suc (Suc (Suc 0))"] eval_nat_numeral)

lemma bit_copy3:
  "bit (copy3 0 bs w) n \<longleftrightarrow>
     (if n < 8 then bit (bs ! 0) n else if n < 16 then bit (bs ! 1) (n - 8)
      else if n < 24 then bit (bs ! 2) (n - 16) else bit w n)"
  by (auto simp add: copy3_unfold bit_store_byte)

lemma load_byte_copy3:
  "load_byte (copy3 0 bs w) 0 = bs ! 0"
  "load_byte (copy3 0 bs w) (Suc 0) = bs ! Suc 0"
  "load_byte (copy3 0 bs w) 2 = bs ! 2"
  "load_byte (copy3 0 bs w) 3 = load_byte w 3"
  by (rule bit_word_eqI, auto simp add: bit_load_byte bit_copy3 dest: bit_imp_le_length)+

subsection \<open>Fields, units and bytes\<close>

lemma WaveVal_eqI:
  "x v = x v' \<Longrightarrow> y v = y v' \<Longrightarrow> z v = z v' \<Longrightarrow> WaveVal.rsvd v = WaveVal.rsvd v'
    \<Longrightarrow> v = v'" for v v' :: WaveVal
  by (cases v, cases v') simp

lemma unit_WaveVal_unit: "WaveVal_unit (unit_WaveVal w) = w"
  by (rule bit_word_eqI)
    (auto simp add: bit_WaveVal_unit bit_x_unit bit_y_unit bit_z_unit bit_rsvd_unit
      dest: bit_imp_le_length)

lemma WaveVal_unit_inverse: "unit_WaveVal (WaveVal_unit v) = v"
proof (rule WaveVal_eqI)
  show "x (unit_WaveVal (WaveVal_unit v)) = x v"
    by (rule bit_word_eqI) (auto simp add: bit_x_unit bit_WaveVal_unit)
  show "y (unit_WaveVal (WaveVal_unit v)) = y v"
    by (rule bit_word_eqI) (auto simp add: bit_y_unit bit_WaveVal_unit)
  show "z (unit_WaveVal (WaveVal_unit v)) = z v"
    by (rule bit_word_eqI) (auto simp add: bit_z_unit bit_WaveVal_unit)
  show "WaveVal.rsvd (unit_WaveVal (WaveVal_unit v)) = WaveVal.rsvd v"
    by (rule bit_word_eqI) (auto simp add: bit_rsvd_unit bit_WaveVal_unit)
qed

text \<open>The \<open>while\<close> loop appends the missing zero bytes and leaves a longer vector alone.\<close>

lemma pad3_eq: "pad3 bytes = bytes @ replicate (3 - length bytes) 0"
proof (induction bytes rule: pad3.induct)
  case (1 bytes)
  show ?case
  proof (cases "length bytes < 3")
    case True
    then have "pad3 bytes = pad3 (bytes @ [0])"
      by (subst pad3.simps) simp
    also have "\<dots> = (bytes @ [0]) @ replicate (3 - length (bytes @ [0])) 0"
      using 1 True by simp
    also have "\<dots> = bytes @ replicate (3 - length bytes) 0"
      using True by (simp add: Suc_diff_Suc replicate_Suc [symmetric] del: replicate_Suc)
    finally show ?thesis .
  next
    case False
    then show ?thesis
      by (subst pad3.simps) simp
  qed
qed

lemma length_pad3: "3 \<le> length (pad3 bytes)"
  by (simp add: pad3_eq)

lemma take3_nth: "3 \<le> length bs \<Longrightarrow> [bs ! 0, bs ! Suc 0, bs ! 2] = take 3 bs"
proof -
  assume "3 \<le> length bs"
  then obtain a b c r where "bs = a # b # c # r"
    by (cases bs; cases "tl bs"; cases "tl (tl bs)") auto
  then show ?thesis by simp
qed

lemma take3_pad3: "take 3 (pad3 bytes) = normalize3 bytes"
  by (simp add: pad3_eq normalize3_def)

lemma to_bytes_unit: "to_bytes (unit_WaveVal w) = [load_byte w 0, load_byte w 1, load_byte w 2]"
  by (simp add: to_bytes_def unit_WaveVal_unit)

lemma to_bytes_ctor_bytes: "to_bytes (WaveVal_ctor_bytes mem bytes) = normalize3 bytes"
  by (simp add: WaveVal_ctor_bytes_def to_bytes_unit load_byte_copy3 take3_nth length_pad3
      take3_pad3)



lemma ctor_bytes_mem:
  "x (WaveVal_ctor_bytes mem bs) = x (WaveVal_ctor_bytes mem' bs)"
  "y (WaveVal_ctor_bytes mem bs) = y (WaveVal_ctor_bytes mem' bs)"
  "z (WaveVal_ctor_bytes mem bs) = z (WaveVal_ctor_bytes mem' bs)"
  by (rule bit_word_eqI,
      auto simp add: WaveVal_ctor_bytes_def bit_x_unit bit_y_unit bit_z_unit bit_copy3)+

lemma length_normalize3: "length (normalize3 bs) = 3"
  by (simp add: normalize3_def min_def)

lemma pad3_normalize3: "pad3 (normalize3 bs) = normalize3 bs"
  by (subst pad3.simps) (simp add: length_normalize3)

lemma nth_pad3:
  "pad3 bs ! 0 = normalize3 bs ! 0"
  "pad3 bs ! Suc 0 = normalize3 bs ! Suc 0"
  "pad3 bs ! 2 = normalize3 bs ! 2"
  using length_pad3 [of bs] by (simp_all add: take3_pad3 [symmetric])

lemma copy3_normalize3: "copy3 0 (pad3 (normalize3 bs)) mem = copy3 0 (pad3 bs) mem"
  by (simp add: pad3_normalize3 copy3_unfold nth_pad3)

lemma ctor_bytes_normalize3: "WaveVal_ctor_bytes mem (normalize3 bs) = WaveVal_ctor_bytes mem bs"
  by (simp add: WaveVal_ctor_bytes_def copy3_normalize3)

lemma xyz_ctor: "xyz (WaveVal_ctor X Y Z) = (unat X mod 32, unat Y mod 1024, unat Z mod 32)"
  by (simp add: xyz_def WaveVal_ctor_def unsigned_ucast_eq take_bit_eq_mod)

lemma to_bytes_length3: "length bs = 3 \<Longrightarrow> normalize3 bs = bs"
  by (simp add: normalize3_def)



subsection \<open>Encoding a triple\<close>

text \<open>
  C1. The triple \<open>x = 1\<close>, \<open>y = 9\<close>, \<open>z = 16\<close> of \<open>AudioBase\<close> serialises to the bytes
  \<open>{0xE1, 0x03, 0x00}\<close>. The code gives other bytes for this triple.
\<close>

theorem AudioBase_bytes_counterexample:
  "to_bytes (WaveVal_ctor 1 9 16) \<noteq> [0xE1, 0x03, 0x00]"
  by (simp add: to_bytes_def WaveVal_unit_def WaveVal_ctor_def load_byte_def)

text \<open>
  C1, amended. The triple \<open>x = 1\<close>, \<open>y = 9\<close>, \<open>z = 16\<close> of \<open>AudioBase\<close> serialises to the
  bytes \<open>{0x21, 0x01, 0x08}\<close>, the little-endian bytes of \<open>1 + 9 * 2 ^ 5 + 16 * 2 ^ 15\<close>:
  \<open>x\<close> in bits 0 to 4, \<open>y\<close> in bits 5 to 14, \<open>z\<close> in bits 15 to 19. The bytes
  \<open>{0xE1, 0x03, 0x00}\<close> are the first step of \<open>GrainTouch\<close>, which has \<open>x = 1\<close>,
  \<open>y = 31\<close>, \<open>z = 0\<close>.
\<close>

theorem AudioBase_bytes:
  "AudioBase = [WaveVal_ctor 1 9 16]
   \<and> to_bytes (WaveVal_ctor 1 9 16) = [0x21, 0x01, 0x08]
   \<and> xyz (WaveVal_ctor 1 9 16) = (1, 9, 16)
   \<and> WaveVal_unit (WaveVal_ctor 1 9 16) = push_bit 0 1 + push_bit 5 9 + push_bit 15 16
   \<and> xyz (WaveVal_ctor_bytes mem [0xE1, 0x03, 0x00]) = (1, 31, 0)"
proof -
  have "xyz (WaveVal_ctor_bytes mem [0xE1, 0x03, 0x00])
      = xyz (WaveVal_ctor_bytes 0 [0xE1, 0x03, 0x00])"
    unfolding xyz_def by (simp only: ctor_bytes_mem [of mem _ 0])
  also have "\<dots> = (1, 31, 0)"
    by (simp add: xyz_def WaveVal_ctor_bytes_def copy3_unfold store_byte_def pad3.simps
        unit_WaveVal_def)
  finally have d: "xyz (WaveVal_ctor_bytes mem [0xE1, 0x03, 0x00]) = (1, 31, 0)" .
  have b: "to_bytes (WaveVal_ctor 1 9 16) = [0x21, 0x01, 0x08]"
    by (simp add: to_bytes_def WaveVal_unit_def WaveVal_ctor_def load_byte_def)
  have u: "WaveVal_unit (WaveVal_ctor 1 9 16) = push_bit 0 1 + push_bit 5 9 + push_bit 15 16"
    by (simp add: WaveVal_unit_def WaveVal_ctor_def)
  from d b u show ?thesis
    by (simp add: AudioBase_def xyz_ctor)
qed

text \<open>
  C6. For every \<open>X\<close> in \<open>0..255\<close>, \<open>Y\<close> in \<open>0..65535\<close> and \<open>Z\<close> in \<open>0..255\<close> (the
  ranges of the parameter types) the constructor stores \<open>x = X mod 32\<close>,
  \<open>y = Y mod 1024\<close>, \<open>z = Z mod 32\<close> and zero reserved bits; \<open>Z = 37\<close> is stored as \<open>5\<close>.
\<close>

theorem WaveVal_ctor_wraps:
  "unat (x (WaveVal_ctor X Y Z)) = unat X mod 32
   \<and> unat (y (WaveVal_ctor X Y Z)) = unat Y mod 1024
   \<and> unat (z (WaveVal_ctor X Y Z)) = unat Z mod 32
   \<and> WaveVal.rsvd (WaveVal_ctor X Y Z) = 0
   \<and> z (WaveVal_ctor X Y 37) = 5"
  by (simp add: WaveVal_ctor_def unsigned_ucast_eq take_bit_eq_mod)

subsection \<open>Decoding bytes\<close>




text \<open>
  C5. The byte constructor is defined on byte sequences of every length and has no
  failure: its padding loop terminates (\<open>pad3\<close> is a total function) with at least three
  bytes, so the three reads \<open>bytes[i]\<close> are in range. A shorter sequence is padded on the
  right with zero bytes, a longer one contributes its first three bytes only.
\<close>

theorem WaveVal_ctor_bytes_total:
  "3 \<le> length (pad3 bs)
   \<and> pad3 bs = bs @ replicate (3 - length bs) 0
   \<and> WaveVal_ctor_bytes mem bs = WaveVal_ctor_bytes mem (normalize3 bs)
   \<and> to_bytes (WaveVal_ctor_bytes mem []) = [0, 0, 0]
   \<and> to_bytes (WaveVal_ctor_bytes mem [0xE1]) = [0xE1, 0, 0]
   \<and> WaveVal_ctor_bytes mem [0x01, 0x02, 0x03, 0x04, 0x05]
        = WaveVal_ctor_bytes mem [0x01, 0x02, 0x03]
   \<and> to_bytes (WaveVal_ctor_bytes mem [0x01, 0x02, 0x03, 0x04, 0x05])
        = to_bytes (WaveVal_ctor_bytes mem' [0x01, 0x02, 0x03])
   \<and> xyz (WaveVal_ctor_bytes mem [0x01, 0x02, 0x03, 0x04, 0x05])
        = xyz (WaveVal_ctor_bytes mem' [0x01, 0x02, 0x03])"
proof -
  have n: "normalize3 [0x01, 0x02, 0x03, 0x04, 0x05] = [0x01, 0x02, 0x03 :: u8]"
    by (simp add: normalize3_def)
  have t: "WaveVal_ctor_bytes m [0x01, 0x02, 0x03, 0x04, 0x05]
      = WaveVal_ctor_bytes m [0x01, 0x02, 0x03]" for m
    using ctor_bytes_normalize3 [of m "[0x01, 0x02, 0x03, 0x04, 0x05]"] by (simp only: n)
  have f: "xyz (WaveVal_ctor_bytes mem [0x01, 0x02, 0x03])
      = xyz (WaveVal_ctor_bytes mem' [0x01, 0x02, 0x03])"
    unfolding xyz_def by (simp only: ctor_bytes_mem [of mem _ mem'])
  have p: "to_bytes (WaveVal_ctor_bytes mem []) = [0, 0, 0]"
    "to_bytes (WaveVal_ctor_bytes mem [0xE1]) = [0xE1, 0, 0]"
    by (simp_all add: to_bytes_ctor_bytes normalize3_def eval_nat_numeral)
  have l: "3 \<le> length (pad3 bs)"
    by (rule length_pad3)
  have q: "pad3 bs = bs @ replicate (3 - length bs) 0"
    by (rule pad3_eq)
  have c: "WaveVal_ctor_bytes mem bs = WaveVal_ctor_bytes mem (normalize3 bs)"
    by (simp only: ctor_bytes_normalize3)
  have t1: "WaveVal_ctor_bytes mem [0x01, 0x02, 0x03, 0x04, 0x05]
      = WaveVal_ctor_bytes mem [0x01, 0x02, 0x03]"
    by (rule t)
  have t2: "to_bytes (WaveVal_ctor_bytes mem [0x01, 0x02, 0x03, 0x04, 0x05])
        = to_bytes (WaveVal_ctor_bytes mem' [0x01, 0x02, 0x03])"
    by (simp only: to_bytes_ctor_bytes n) (simp add: normalize3_def)
  have t3: "xyz (WaveVal_ctor_bytes mem [0x01, 0x02, 0x03, 0x04, 0x05])
        = xyz (WaveVal_ctor_bytes mem' [0x01, 0x02, 0x03])"
    by (simp only: t f)
  show ?thesis
    by (intro conjI) (fact l q c p t1 t2 t3)+
qed

text \<open>
  C10. For every byte sequence, the three bytes of the step built from it are the sequence
  itself, padded on the right with zero bytes or cut to three bytes; bits that fall in the
  reserved field are kept.
\<close>

theorem decode_then_serialize:
  "to_bytes (WaveVal_ctor_bytes mem bs) = normalize3 bs
   \<and> length (to_bytes (WaveVal_ctor_bytes mem bs)) = 3
   \<and> to_bytes (WaveVal_ctor_bytes mem [b0, b1, b2]) = [b0, b1, b2]
   \<and> to_bytes (WaveVal_ctor_bytes mem [0x00, 0x00, 0xF0]) = [0x00, 0x00, 0xF0]
   \<and> take_bit 4 (WaveVal.rsvd (WaveVal_ctor_bytes mem [0x00, 0x00, 0xF0])) = 0xF"
proof -
  have "take_bit 4 (WaveVal.rsvd (WaveVal_ctor_bytes mem [0x00, 0x00, 0xF0])) = 0xF"
  proof -
    have "take_bit 4 (WaveVal.rsvd (WaveVal_ctor_bytes mem [0x00, 0x00, 0xF0]))
        = take_bit 4 (WaveVal.rsvd (WaveVal_ctor_bytes 0 [0x00, 0x00, 0xF0]))"
      by (rule bit_word_eqI)
        (auto simp add: bit_take_bit_iff WaveVal_ctor_bytes_def bit_rsvd_unit bit_copy3)
    also have "\<dots> = 0xF"
      by (simp add: WaveVal_ctor_bytes_def copy3_unfold store_byte_def pad3.simps
          unit_WaveVal_def)
    finally show ?thesis .
  qed
  then show ?thesis
    by (simp add: to_bytes_ctor_bytes length_normalize3) (simp add: normalize3_def)
qed

section \<open>The waveform tables\<close>

text \<open>
  C7. \<open>GrainTouch\<close> has exactly 12 steps, \<open>MediumWave\<close> exactly 15 and \<open>SlowWave\<close> exactly
  18, each in the order of the header: \<open>GrainTouch\<close> by the bytes of its steps, the two
  others by the triples of their steps.
\<close>

theorem presets_in_order:
  "length (GrainTouch mem) = 12
   \<and> map to_bytes (GrainTouch mem) =
       [[0xE1, 0x03, 0x00], [0xE1, 0x03, 0x0A], [0xA1, 0x04, 0x0A], [0xC1, 0x05, 0x0A],
        [0x01, 0x07, 0x00], [0x21, 0x01, 0x0A], [0x61, 0x01, 0x0A], [0xA1, 0x01, 0x0A],
        [0x01, 0x02, 0x00], [0x01, 0x02, 0x0A], [0x81, 0x02, 0x0A], [0x21, 0x03, 0x0A]]
   \<and> length MediumWave = 15
   \<and> map xyz MediumWave =
       [(1, 9, 4), (1, 9, 4), (1, 9, 6), (1, 9, 10), (1, 9, 12), (1, 9, 17), (1, 9, 20),
        (1, 9, 20), (1, 9, 20), (1, 9, 20), (1, 9, 20), (1, 9, 17), (1, 9, 12), (1, 9, 10),
        (1, 9, 6)]
   \<and> length SlowWave = 18
   \<and> map xyz SlowWave =
       [(1, 26, 8), (1, 26, 8), (1, 24, 10), (1, 22, 12), (1, 20, 14), (1, 18, 16),
        (1, 16, 18), (1, 16, 22), (1, 16, 24), (1, 12, 24), (1, 12, 24), (1, 16, 24),
        (1, 16, 22), (1, 16, 18), (1, 18, 16), (1, 20, 14), (1, 22, 12), (1, 24, 10)]
   \<and> length AudioBase = 1 \<and> length IntenseVibration = 1"
proof -
  have g: "length (GrainTouch mem) = 12"
    by (simp add: GrainTouch_def)
  have gb: "map to_bytes (GrainTouch mem) =
       [[0xE1, 0x03, 0x00], [0xE1, 0x03, 0x0A], [0xA1, 0x04, 0x0A], [0xC1, 0x05, 0x0A],
        [0x01, 0x07, 0x00], [0x21, 0x01, 0x0A], [0x61, 0x01, 0x0A], [0xA1, 0x01, 0x0A],
        [0x01, 0x02, 0x00], [0x01, 0x02, 0x0A], [0x81, 0x02, 0x0A], [0x21, 0x03, 0x0A]]"
    by (simp add: GrainTouch_def to_bytes_ctor_bytes to_bytes_length3)
  have m: "length MediumWave = 15"
    by (simp add: MediumWave_def)
  have mt: "map xyz MediumWave =
       [(1, 9, 4), (1, 9, 4), (1, 9, 6), (1, 9, 10), (1, 9, 12), (1, 9, 17), (1, 9, 20),
        (1, 9, 20), (1, 9, 20), (1, 9, 20), (1, 9, 20), (1, 9, 17), (1, 9, 12), (1, 9, 10),
        (1, 9, 6)]"
    by (simp add: MediumWave_def xyz_ctor)
  have s: "length SlowWave = 18"
    by (simp add: SlowWave_def)
  have st: "map xyz SlowWave =
       [(1, 26, 8), (1, 26, 8), (1, 24, 10), (1, 22, 12), (1, 20, 14), (1, 18, 16),
        (1, 16, 18), (1, 16, 22), (1, 16, 24), (1, 12, 24), (1, 12, 24), (1, 16, 24),
        (1, 16, 22), (1, 16, 18), (1, 18, 16), (1, 20, 14), (1, 22, 12), (1, 24, 10)]"
    by (simp add: SlowWave_def xyz_ctor)
  have o: "length AudioBase = 1" "length IntenseVibration = 1"
    by (simp_all add: AudioBase_def IntenseVibration_def)
  show ?thesis
    by (intro conjI) (fact g gb m mt s st o)+
qed

end
